theory Spec2Isabelle
  imports Main
begin

section \<open>The Pro client of lanternlib: \<^verbatim>\<open>lantern_pro.go\<close>\<close>

text \<open>
  The file dispatches a command name to one of nine handlers. A handler reads a few
  getters of the caller's \<^verbatim>\<open>Session\<close>, makes one call to the Pro server through
  \<^verbatim>\<open>client.Client\<close>, and calls setters of the \<^verbatim>\<open>Session\<close> with what came back.
  \<^verbatim>\<open>RemoveDevice\<close> is a tenth operation outside the table.

  The HTTP client factory, the Pro server, \<^verbatim>\<open>strings.ToLower\<close> and Stripe's key
  generator are collaborators outside the file: they are parameters of the model.
\<close>

subsection \<open>Values of the \<^verbatim>\<open>client\<close> package\<close>

text \<open>
  A Go \<^verbatim>\<open>error\<close> is kept by its message; \<^verbatim>\<open>nil\<close> is \<open>None\<close>. A
  \<^verbatim>\<open>*client.Response\<close> is a \<open>client_Response option\<close>, \<open>None\<close> for the nil
  pointer. The structs carry the fields that the file reads or writes. Go's \<^verbatim>\<open>int\<close> and
  \<^verbatim>\<open>int64\<close> values are only passed along, never computed with, so they are \<open>int\<close>.
\<close>

type_synonym error = string

record client_Auth =
  Auth_DeviceID :: string
  Auth_ID :: int
  Auth_Token :: string

record client_Device =
  Device_Id :: string
  Device_Name :: string

record client_User =
  User_Auth :: client_Auth
  User_Code :: string
  User_Referral :: string
  User_ExpireAt :: int
  User_Devices :: "client_Device list"
  User_UserStatus :: string
  User_Expiration :: int
  User_Subscription :: string
  User_Email :: string

record client_Duration =
  Duration_Years :: int

text \<open>
  \<open>Plan_Price\<close> is a Go map from currency to price. The only thing the file does with it
  is one \<^verbatim>\<open>range\<close>, left at the first entry; Go does not fix the order in which
  \<^verbatim>\<open>range\<close> visits a map. The field holds the entries in the order in which this run's
  \<^verbatim>\<open>range\<close> visits them, so the head of the list is the entry visited first, and a
  statement about every list is a statement about every order.
\<close>

record client_Plan =
  Plan_Id :: string
  Plan_Description :: string
  Plan_Price :: "(string \<times> int) list"
  Plan_BestValue :: bool
  Plan_Duration :: client_Duration

record client_Response =
  Response_Status :: string
  Response_Error :: string
  Response_User :: client_User
  Response_Plans :: "client_Plan list"
  Response_PubKey :: string

record client_Purchase =
  Purchase_IdempotencyKey :: string
  Purchase_StripeToken :: string
  Purchase_StripeEmail :: string
  Purchase_Plan :: string
  Purchase_Currency :: string

datatype httpClient = HTTPClient nat

text \<open>
  \<^verbatim>\<open>client.Client\<close>: the HTTP client it was built on, and the locale given to it by
  \<^verbatim>\<open>SetLocale\<close>, if any.
\<close>

record client_Client =
  Client_httpClient :: httpClient
  Client_locale :: "string option"

definition NewClient :: "httpClient \<Rightarrow> client_Client" where
  "NewClient h = \<lparr>Client_httpClient = h, Client_locale = None\<rparr>"

definition SetLocale :: "string \<Rightarrow> client_Client \<Rightarrow> client_Client" where
  "SetLocale l c = c\<lparr>Client_locale := Some l\<rparr>"

text \<open>The methods of \<^verbatim>\<open>client.Client\<close> that the file calls, with their arguments.\<close>

datatype request =
    ReqUserCreate client_User
  | ReqPurchase client_User string string client_Purchase
  | ReqRequestLinkCode client_User string
  | ReqRedeemLinkCode client_User string
  | ReqApplyLinkCode client_User
  | ReqRedeemReferralCode client_User string
  | ReqCancelSubscription client_User
  | ReqPlans client_User
  | ReqUserData client_User
  | ReqUserLinkRemove client_User string

subsection \<open>The \<^verbatim>\<open>Session\<close> interface\<close>

text \<open>
  \<^verbatim>\<open>Session\<close> is an interface whose implementation belongs to the caller. Its nine
  mutators are the constructors of \<open>mutation\<close>. A \<open>session\<close> holds what each getter
  returns when the file reads it, and \<open>calls\<close>, the mutator calls received so far, oldest
  first. Within one call of \<^verbatim>\<open>ProRequest\<close> or \<^verbatim>\<open>RemoveDevice\<close> every getter is read
  before the first mutator is called, so the getters' values are those at entry.
\<close>

datatype mutation =
    SetToken string
  | SetUserId int
  | SetDeviceCode string int
  | UserData string int string string
  | SetCode string
  | SetError string string
  | SetStripePubKey string
  | AddPlan string string string bool int int
  | AddDevice string string

record session =
  UserId :: int
  Code :: string
  VerifyCode :: string
  DeviceCode :: string
  DeviceId :: string
  DeviceName :: string
  Locale :: string
  Referral :: string
  Token :: string
  Plan :: string
  StripeToken :: string
  StripeApiKey :: string
  Email :: string
  Currency :: string
  calls :: "mutation list"

definition invoke :: "mutation \<Rightarrow> session \<Rightarrow> session" where
  "invoke m s = s\<lparr>calls := calls s @ [m]\<rparr>"

subsection \<open>Collaborators and the state of the process\<close>

text \<open>
  \<open>GetHTTPClient\<close> is \<^verbatim>\<open>proxied.GetHTTPClient\<close>; \<open>remote\<close> is the Pro server seen
  through the client library: the pair \<^verbatim>\<open>(*client.Response, error)\<close> that a method
  call returns; \<open>ToLower\<close> is \<^verbatim>\<open>strings.ToLower\<close>.
\<close>

record env =
  GetHTTPClient :: "bool \<Rightarrow> error + httpClient"
  remote :: "client_Client \<Rightarrow> request \<Rightarrow> client_Response option \<times> error option"
  ToLower :: "string \<Rightarrow> string"

text \<open>
  What lives as long as the process: the keys that \<^verbatim>\<open>stripe.NewIdempotencyKey\<close> hands
  out (\<open>idempotencyKeys p n\<close> is the key of its call number \<open>n\<close>), how many it has handed
  out, and the requests sent to the Pro server so far, oldest first.
\<close>

record process =
  idempotencyKeys :: "nat \<Rightarrow> string"
  drawn :: nat
  sent :: "(client_Client \<times> request) list"

definition NewIdempotencyKey :: "process \<Rightarrow> string \<times> process" where
  "NewIdempotencyKey p = (idempotencyKeys p (drawn p), p\<lparr>drawn := Suc (drawn p)\<rparr>)"

definition remoteCall ::
  "env \<Rightarrow> client_Client \<Rightarrow> request \<Rightarrow> process
    \<Rightarrow> (client_Response option \<times> error option) \<times> process" where
  "remoteCall e c q p = (remote e c q, p\<lparr>sent := sent p @ [(c, q)]\<rparr>)"

text \<open>
  A run-time panic of Go: calling a nil function value, or reading a field through a nil
  pointer.
\<close>

datatype panic = NilFunc | NilDeref

text \<open>
  The test \<^verbatim>\<open>err != nil || res.Status != "ok"\<close> of \<^verbatim>\<open>redeemcode\<close>,
  \<^verbatim>\<open>RemoveDevice\<close> and \<^verbatim>\<open>ProRequest\<close>. \<^verbatim>\<open>||\<close> evaluates its right operand only
  when \<^verbatim>\<open>err\<close> is nil, and that operand reads through \<^verbatim>\<open>res\<close>.
\<close>

definition failed :: "client_Response option \<Rightarrow> error option \<Rightarrow> panic + bool" where
  "failed res err =
     (case err of
        Some e \<Rightarrow> Inr True
      | None \<Rightarrow>
          (case res of
             None \<Rightarrow> Inl NilDeref
           | Some x \<Rightarrow> Inr (Response_Status x \<noteq> ''ok'')))"

subsection \<open>\<^verbatim>\<open>newRequest\<close>\<close>

text \<open>
  \<^verbatim>\<open>proRequest\<close> has a third field, \<^verbatim>\<open>session\<close>, a reference to the caller's
  \<^verbatim>\<open>Session\<close>. The model passes the session to each handler and gets it back instead.
\<close>

record proRequest =
  proClient :: client_Client
  user :: client_User

definition newRequest :: "env \<Rightarrow> bool \<Rightarrow> session \<Rightarrow> error + proRequest" where
  "newRequest e shouldProxy s =
     (case GetHTTPClient e shouldProxy of
        Inl err \<Rightarrow> Inl err
      | Inr h \<Rightarrow>
          Inr \<lparr>proClient = NewClient h,
               user = \<lparr>User_Auth = \<lparr>Auth_DeviceID = DeviceId s, Auth_ID = UserId s,
                                     Auth_Token = Token s\<rparr>,
                       User_Code = '''', User_Referral = '''', User_ExpireAt = 0,
                       User_Devices = [], User_UserStatus = '''', User_Expiration = 0,
                       User_Subscription = '''', User_Email = ''''\<rparr>\<rparr>)"

subsection \<open>The handlers\<close>

type_synonym proFunc =
  "env \<Rightarrow> proRequest \<Rightarrow> session \<Rightarrow> process
    \<Rightarrow> panic + (client_Response option \<times> error option \<times> session \<times> process)"

definition newuser :: proFunc where
  "newuser e r s p =
     (case remoteCall e (SetLocale (Locale s) (proClient r)) (ReqUserCreate (user r)) p of
        ((res, err), p') \<Rightarrow>
          (case err of
             Some m \<Rightarrow> Inr (res, err, s, p')
           | None \<Rightarrow>
               (case res of
                  None \<Rightarrow> Inl NilDeref
                | Some x \<Rightarrow>
                    Inr (res, err,
                         fold invoke
                           [SetUserId (Auth_ID (User_Auth (Response_User x))),
                            SetToken (Auth_Token (User_Auth (Response_User x))),
                            SetCode (User_Referral (Response_User x))] s,
                         p'))))"

definition purchase :: proFunc where
  "purchase e r s p =
     (case NewIdempotencyKey p of
        (key, p1) \<Rightarrow>
          (case remoteCall e (proClient r)
                  (ReqPurchase (user r) (DeviceName s) (StripeApiKey s)
                     \<lparr>Purchase_IdempotencyKey = key,
                      Purchase_StripeToken = StripeToken s,
                      Purchase_StripeEmail = Email s,
                      Purchase_Plan = Plan s,
                      Purchase_Currency = ToLower e (Currency s)\<rparr>) p1 of
             ((res, err), p') \<Rightarrow> Inr (res, err, s, p')))"

definition requestcode :: proFunc where
  "requestcode e r s p =
     (case remoteCall e (proClient r) (ReqRequestLinkCode (user r) (DeviceName s)) p of
        ((res, err), p') \<Rightarrow>
          (case err of
             Some m \<Rightarrow> Inr (res, err, s, p')
           | None \<Rightarrow>
               (case res of
                  None \<Rightarrow> Inl NilDeref
                | Some x \<Rightarrow>
                    Inr (res, err,
                         invoke (SetDeviceCode (User_Code (Response_User x))
                                   (User_ExpireAt (Response_User x))) s,
                         p'))))"

definition redeemcode :: proFunc where
  "redeemcode e r s p =
     (case remoteCall e (proClient r)
             (ReqRedeemLinkCode ((user r)\<lparr>User_Code := DeviceCode s\<rparr>) (DeviceName s)) p of
        ((res, err), p') \<Rightarrow>
          (case failed res err of
             Inl f \<Rightarrow> Inl f
           | Inr notOk \<Rightarrow>
               if notOk then Inr (res, err, s, p')
               else
                 (case res of
                    None \<Rightarrow> Inl NilDeref
                  | Some x \<Rightarrow>
                      Inr (res, err,
                           fold invoke
                             [SetToken (Auth_Token (User_Auth (Response_User x))),
                              SetUserId (Auth_ID (User_Auth (Response_User x)))] s,
                           p'))))"

definition signin :: proFunc where
  "signin e r s p =
     (case remoteCall e (proClient r)
             (ReqApplyLinkCode ((user r)\<lparr>User_Code := VerifyCode s\<rparr>)) p of
        ((res, err), p') \<Rightarrow> Inr (res, err, s, p'))"

definition referral :: proFunc where
  "referral e r s p =
     (case remoteCall e (proClient r) (ReqRedeemReferralCode (user r) (Referral s)) p of
        ((res, err), p') \<Rightarrow> Inr (res, err, s, p'))"

definition cancel :: proFunc where
  "cancel e r s p =
     (case remoteCall e (proClient r) (ReqCancelSubscription (user r)) p of
        ((res, err), p') \<Rightarrow> Inr (res, err, s, p'))"

text \<open>
  The body of the loop over \<^verbatim>\<open>res.Plans\<close>: \<^verbatim>\<open>currency\<close> and \<^verbatim>\<open>price\<close> start as
  \<^verbatim>\<open>""\<close> and \<^verbatim>\<open>0\<close>, the inner \<^verbatim>\<open>range\<close> assigns them the entry it visits first and
  breaks, and the plan is added when \<^verbatim>\<open>currency\<close> is not \<^verbatim>\<open>""\<close>.
\<close>

definition addPlan :: "client_Plan \<Rightarrow> session \<Rightarrow> session" where
  "addPlan plan s =
     (case (case Plan_Price plan of [] \<Rightarrow> ('''', 0) | entry # _ \<Rightarrow> entry) of
        (currency, price) \<Rightarrow>
          if currency \<noteq> ''''
          then invoke (AddPlan (Plan_Id plan) (Plan_Description plan) currency
                         (Plan_BestValue plan) (Duration_Years (Plan_Duration plan)) price) s
          else s)"

definition plans :: proFunc where
  "plans e r s p =
     (case remoteCall e (proClient r) (ReqPlans (user r)) p of
        ((res, err), p') \<Rightarrow>
          (case err of
             Some m \<Rightarrow> Inr (res, err, s, p')
           | None \<Rightarrow>
               (case res of
                  None \<Rightarrow> Inl NilDeref
                | Some x \<Rightarrow>
                    if length (Response_Plans x) = 0 then Inr (res, err, s, p')
                    else Inr (res, err,
                              fold addPlan (Response_Plans x)
                                (invoke (SetStripePubKey (Response_PubKey x)) s),
                              p'))))"

definition userdata :: proFunc where
  "userdata e r s p =
     (case remoteCall e (proClient r) (ReqUserData (user r)) p of
        ((res, err), p') \<Rightarrow>
          (case err of
             Some m \<Rightarrow> Inr (res, err, s, p')
           | None \<Rightarrow>
               (case res of
                  None \<Rightarrow> Inl NilDeref
                | Some x \<Rightarrow>
                    Inr (res, err,
                         invoke (UserData (User_UserStatus (Response_User x))
                                   (User_Expiration (Response_User x))
                                   (User_Subscription (Response_User x))
                                   (User_Email (Response_User x)))
                           (fold (\<lambda>device. invoke (AddDevice (Device_Id device)
                                                       (Device_Name device)))
                              (User_Devices (Response_User x)) s),
                         p'))))"

subsection \<open>\<^verbatim>\<open>RemoveDevice\<close> and \<^verbatim>\<open>ProRequest\<close>\<close>

text \<open>
  In the failure branch of \<^verbatim>\<open>RemoveDevice\<close> the log line has \<^verbatim>\<open>res.Status\<close> among
  its arguments, which reads through \<^verbatim>\<open>res\<close> before the function returns.
\<close>

definition RemoveDevice ::
  "env \<Rightarrow> bool \<Rightarrow> string \<Rightarrow> session \<Rightarrow> process \<Rightarrow> panic + (bool \<times> session \<times> process)" where
  "RemoveDevice e shouldProxy deviceId s p =
     (case newRequest e shouldProxy s of
        Inl err \<Rightarrow> Inr (False, s, p)
      | Inr req \<Rightarrow>
          (case remoteCall e (proClient req) (ReqUserLinkRemove (user req) deviceId) p of
             ((res, err), p') \<Rightarrow>
               (case failed res err of
                  Inl f \<Rightarrow> Inl f
                | Inr notOk \<Rightarrow>
                    if notOk
                    then (case res of
                            None \<Rightarrow> Inl NilDeref
                          | Some x \<Rightarrow> Inr (False, s, p'))
                    else Inr (True, s, p'))))"

definition commands :: "string \<rightharpoonup> proFunc" where
  "commands =
     [''newuser'' \<mapsto> newuser,
      ''purchase'' \<mapsto> purchase,
      ''plans'' \<mapsto> plans,
      ''signin'' \<mapsto> signin,
      ''redeemcode'' \<mapsto> redeemcode,
      ''requestcode'' \<mapsto> requestcode,
      ''userdata'' \<mapsto> userdata,
      ''referral'' \<mapsto> referral,
      ''cancel'' \<mapsto> cancel]"

text \<open>
  \<^verbatim>\<open>commands[command](req)\<close>: a name that is not a key of the map gives the zero value
  of \<^verbatim>\<open>proFunc\<close>, the nil function, and calling it panics.
\<close>

definition ProRequest ::
  "env \<Rightarrow> bool \<Rightarrow> string \<Rightarrow> session \<Rightarrow> process \<Rightarrow> panic + (bool \<times> session \<times> process)" where
  "ProRequest e shouldProxy command s p =
     (case newRequest e shouldProxy s of
        Inl err \<Rightarrow> Inr (False, s, p)
      | Inr req \<Rightarrow>
          (case commands command of
             None \<Rightarrow> Inl NilFunc
           | Some handler \<Rightarrow>
               (case handler e (req\<lparr>proClient := SetLocale (Locale s) (proClient req)\<rparr>) s p of
                  Inl f \<Rightarrow> Inl f
                | Inr (res, err, s', p') \<Rightarrow>
                    (case failed res err of
                       Inl f \<Rightarrow> Inl f
                     | Inr notOk \<Rightarrow>
                         if notOk
                         then (case res of
                                 None \<Rightarrow> Inr (False, s', p')
                               | Some x \<Rightarrow>
                                   Inr (False,
                                        invoke (SetError command (Response_Error x)) s', p'))
                         else Inr (True, s', p')))))"

subsection \<open>A process lifetime\<close>

text \<open>
  The two exported functions are called one after the other by the embedding application,
  each time with the session and the surroundings of that moment. A panic ends the
  process. \<open>lifetime\<close> runs such a sequence from a given state of the process and
  returns what each call returned.
\<close>

datatype call =
    ViaProRequest env bool string session
  | ViaRemoveDevice env bool string session

definition perform :: "call \<Rightarrow> process \<Rightarrow> panic + (bool \<times> session \<times> process)" where
  "perform c p =
     (case c of
        ViaProRequest e shouldProxy command s \<Rightarrow> ProRequest e shouldProxy command s p
      | ViaRemoveDevice e shouldProxy deviceId s \<Rightarrow> RemoveDevice e shouldProxy deviceId s p)"

fun lifetime :: "call list \<Rightarrow> process \<Rightarrow> panic + ((bool \<times> session) list \<times> process)" where
  "lifetime [] p = Inr ([], p)"
| "lifetime (c # cs) p =
     (case perform c p of
        Inl f \<Rightarrow> Inl f
      | Inr (b, s', p') \<Rightarrow>
          (case lifetime cs p' of
             Inl f \<Rightarrow> Inl f
           | Inr (rs, p'') \<Rightarrow> Inr ((b, s') # rs, p'')))"

text \<open>A process that has drawn no key and sent nothing yet.\<close>

definition start :: "(nat \<Rightarrow> string) \<Rightarrow> process" where
  "start keys = \<lparr>idempotencyKeys = keys, drawn = 0, sent = []\<rparr>"

text \<open>The idempotency keys of the purchase requests among the requests sent, in order.\<close>

fun purchaseKeys :: "(client_Client \<times> request) list \<Rightarrow> string list" where
  "purchaseKeys [] = []"
| "purchaseKeys ((c, q) # xs) =
     (case q of
        ReqPurchase u deviceName pubKey pur \<Rightarrow> Purchase_IdempotencyKey pur # purchaseKeys xs
      | _ \<Rightarrow> purchaseKeys xs)"

text \<open>A call that gets as far as the \<^verbatim>\<open>purchase\<close> handler.\<close>

definition sendsPurchase :: "call \<Rightarrow> bool" where
  "sendsPurchase c =
     (case c of
        ViaProRequest e shouldProxy command s \<Rightarrow>
          (case GetHTTPClient e shouldProxy of
             Inl m \<Rightarrow> False
           | Inr h \<Rightarrow> command = ''purchase'')
      | ViaRemoveDevice e shouldProxy deviceId s \<Rightarrow> False)"

subsection \<open>Concrete surroundings\<close>

text \<open>
  A session, a key generator, a request context and two kinds of surroundings on which the
  functions above are evaluated further down.
\<close>

definition lowerASCII :: "string \<Rightarrow> string" where
  "lowerASCII =
     map (\<lambda>c. if 65 \<le> (of_char c :: nat) \<and> (of_char c :: nat) \<le> 90
              then char_of (of_char c + (32 :: nat)) else c)"

definition exKeys :: "nat \<Rightarrow> string" where
  "exKeys n = replicate (Suc n) CHR ''k''"

definition exSession :: session where
  "exSession =
     \<lparr>UserId = 7, Code = ''REF7'', VerifyCode = ''1234'', DeviceCode = ''5678'',
      DeviceId = ''dev-1'', DeviceName = ''phone'', Locale = ''en_US'',
      Referral = ''FRIEND'', Token = ''tok-7'', Plan = ''1y'', StripeToken = ''st-tok'',
      StripeApiKey = ''pk_test'', Email = ''a@b.org'', Currency = ''usd'', calls = []\<rparr>"

definition noUser :: client_User where
  "noUser =
     \<lparr>User_Auth = \<lparr>Auth_DeviceID = '''', Auth_ID = 0, Auth_Token = ''''\<rparr>,
      User_Code = '''', User_Referral = '''', User_ExpireAt = 0, User_Devices = [],
      User_UserStatus = '''', User_Expiration = 0, User_Subscription = '''',
      User_Email = ''''\<rparr>"

definition exResponse :: "string \<Rightarrow> string \<Rightarrow> client_User \<Rightarrow> client_Response" where
  "exResponse status message u =
     \<lparr>Response_Status = status, Response_Error = message, Response_User = u,
      Response_Plans = [], Response_PubKey = ''''\<rparr>"

text \<open>
  The HTTP client can be built, and the Pro server gives the same answer to every call.
\<close>

definition exEnv :: "client_Response option \<times> error option \<Rightarrow> env" where
  "exEnv answer =
     \<lparr>GetHTTPClient = (\<lambda>shouldProxy. Inr (HTTPClient 1)),
      remote = (\<lambda>c q. answer),
      ToLower = lowerASCII\<rparr>"

text \<open>The HTTP client cannot be built.\<close>

definition exOffline :: env where
  "exOffline =
     \<lparr>GetHTTPClient = (\<lambda>shouldProxy. Inl ''no proxy''),
      remote = (\<lambda>c q. (None, Some ''unreachable'')),
      ToLower = lowerASCII\<rparr>"

text \<open>The request context that \<open>ProRequest\<close> hands to a handler for \<open>exSession\<close>.\<close>

definition exRequest :: proRequest where
  "exRequest =
     \<lparr>proClient = \<lparr>Client_httpClient = HTTPClient 1, Client_locale = Some ''en_US''\<rparr>,
      user = noUser\<lparr>User_Auth :=
               \<lparr>Auth_DeviceID = ''dev-1'', Auth_ID = 7, Auth_Token = ''tok-7''\<rparr>\<rparr>\<rparr>"

text \<open>A plan list: a plan without a price and a plan priced in two currencies.\<close>

definition exPlans :: client_Response where
  "exPlans =
     \<lparr>Response_Status = ''ok'', Response_Error = '''', Response_User = noUser,
      Response_Plans =
        [\<lparr>Plan_Id = ''free'', Plan_Description = ''Free'', Plan_Price = [],
          Plan_BestValue = False, Plan_Duration = \<lparr>Duration_Years = 0\<rparr>\<rparr>,
         \<lparr>Plan_Id = ''1y'', Plan_Description = ''One year'',
          Plan_Price = [(''usd'', 500), (''eur'', 450)],
          Plan_BestValue = True, Plan_Duration = \<lparr>Duration_Years = 1\<rparr>\<rparr>],
      Response_PubKey = ''pk_live''\<rparr>"

text \<open>A plan whose only price is filed under the currency \<^verbatim>\<open>""\<close>.\<close>

definition exUnnamedCurrency :: client_Plan where
  "exUnnamedCurrency =
     \<lparr>Plan_Id = ''2y'', Plan_Description = ''Two years'', Plan_Price = [('''', 900)],
      Plan_BestValue = False, Plan_Duration = \<lparr>Duration_Years = 2\<rparr>\<rparr>"

text \<open>A user with two linked devices.\<close>

definition exLinkedUser :: client_User where
  "exLinkedUser =
     noUser\<lparr>User_Devices :=
              [\<lparr>Device_Id = ''d1'', Device_Name = ''phone''\<rparr>,
               \<lparr>Device_Id = ''d2'', Device_Name = ''laptop''\<rparr>],
            User_UserStatus := ''active'', User_Expiration := 1700000000,
            User_Subscription := ''1y'', User_Email := ''a@b.org''\<rparr>"

text \<open>A user as the server returns it with fresh credentials.\<close>

definition exNewUser :: client_User where
  "exNewUser =
     noUser\<lparr>User_Auth := \<lparr>Auth_DeviceID = ''dev-1'', Auth_ID = 42, Auth_Token = ''T''\<rparr>,
            User_Referral := ''R1''\<rparr>"

section \<open>Properties\<close>

subsection \<open>The command table and what every handler does\<close>

lemma commands_cases:
  assumes "commands c = Some h"
  obtains "c = ''newuser''" "h = newuser"
    | "c = ''purchase''" "h = purchase"
    | "c = ''plans''" "h = plans"
    | "c = ''signin''" "h = signin"
    | "c = ''redeemcode''" "h = redeemcode"
    | "c = ''requestcode''" "h = requestcode"
    | "c = ''userdata''" "h = userdata"
    | "c = ''referral''" "h = referral"
    | "c = ''cancel''" "h = cancel"
  using assms unfolding commands_def by (auto split: if_splits)

lemma dom_commands:
  "dom commands = {''newuser'', ''purchase'', ''plans'', ''signin'', ''redeemcode'',
      ''requestcode'', ''userdata'', ''referral'', ''cancel''}"
  unfolding commands_def by auto

lemmas handler_defs = newuser_def purchase_def plans_def signin_def redeemcode_def
  requestcode_def userdata_def referral_def cancel_def

text \<open>
  The request that a handler sends does not depend on the Pro server: there is one
  client \<open>cl\<close> and one request \<open>q\<close> such that, whatever the server \<open>rm\<close> is, the
  handler sends \<open>q\<close> through \<open>cl\<close> and nothing else, and what it does next is decided
  by the answer \<open>rm cl q\<close>. On an error it hands the answer back without a call on the
  session. On a response without an error it hands the answer back. On neither it panics
  or hands the pair of nils back.
\<close>

lemma handler_call:
  assumes "commands c = Some h"
  shows "\<exists>cl q p'. sent p' = sent p @ [(cl, q)] \<and>
           (\<forall>rm res m. rm cl q = (res, Some m) \<longrightarrow>
              h (e\<lparr>remote := rm\<rparr>) r s p = Inr (res, Some m, s, p')) \<and>
           (\<forall>rm. rm cl q = (None, None) \<longrightarrow>
              h (e\<lparr>remote := rm\<rparr>) r s p = Inl NilDeref \<or>
              h (e\<lparr>remote := rm\<rparr>) r s p = Inr (None, None, s, p')) \<and>
           (\<forall>rm x. rm cl q = (Some x, None) \<longrightarrow>
              (\<exists>s'. h (e\<lparr>remote := rm\<rparr>) r s p = Inr (Some x, None, s', p')))"
  using assms
proof (rule commands_cases)
  assume "h = newuser"
  then show ?thesis
    by (intro exI [of _ "SetLocale (Locale s) (proClient r)"] exI [of _ "ReqUserCreate (user r)"]
          exI [of _ "p\<lparr>sent := sent p @ [(SetLocale (Locale s) (proClient r), ReqUserCreate (user r))]\<rparr>"])
       (simp add: newuser_def remoteCall_def)
next
  assume "h = purchase"
  then show ?thesis
    by (intro exI [of _ "proClient r"]
          exI [of _ "ReqPurchase (user r) (DeviceName s) (StripeApiKey s)
                     \<lparr>Purchase_IdempotencyKey = idempotencyKeys p (drawn p),
                      Purchase_StripeToken = StripeToken s,
                      Purchase_StripeEmail = Email s,
                      Purchase_Plan = Plan s,
                      Purchase_Currency = ToLower e (Currency s)\<rparr>"]
          exI [of _ "p\<lparr>drawn := Suc (drawn p), sent := sent p @ [(proClient r, ReqPurchase (user r) (DeviceName s) (StripeApiKey s)
                     \<lparr>Purchase_IdempotencyKey = idempotencyKeys p (drawn p),
                      Purchase_StripeToken = StripeToken s,
                      Purchase_StripeEmail = Email s,
                      Purchase_Plan = Plan s,
                      Purchase_Currency = ToLower e (Currency s)\<rparr>)]\<rparr>"])
       (simp add: purchase_def remoteCall_def NewIdempotencyKey_def)
next
  assume "h = plans"
  then show ?thesis
    by (intro exI [of _ "proClient r"] exI [of _ "ReqPlans (user r)"]
          exI [of _ "p\<lparr>sent := sent p @ [(proClient r, ReqPlans (user r))]\<rparr>"])
       (simp add: plans_def remoteCall_def)
next
  assume "h = signin"
  then show ?thesis
    by (intro exI [of _ "proClient r"]
          exI [of _ "ReqApplyLinkCode ((user r)\<lparr>User_Code := VerifyCode s\<rparr>)"]
          exI [of _ "p\<lparr>sent := sent p @ [(proClient r, ReqApplyLinkCode ((user r)\<lparr>User_Code := VerifyCode s\<rparr>))]\<rparr>"])
       (simp add: signin_def remoteCall_def)
next
  assume "h = redeemcode"
  then show ?thesis
    by (intro exI [of _ "proClient r"]
          exI [of _ "ReqRedeemLinkCode ((user r)\<lparr>User_Code := DeviceCode s\<rparr>) (DeviceName s)"]
          exI [of _ "p\<lparr>sent := sent p @ [(proClient r, ReqRedeemLinkCode ((user r)\<lparr>User_Code := DeviceCode s\<rparr>) (DeviceName s))]\<rparr>"])
       (simp add: redeemcode_def remoteCall_def failed_def)
next
  assume "h = requestcode"
  then show ?thesis
    by (intro exI [of _ "proClient r"]
          exI [of _ "ReqRequestLinkCode (user r) (DeviceName s)"]
          exI [of _ "p\<lparr>sent := sent p @ [(proClient r, ReqRequestLinkCode (user r) (DeviceName s))]\<rparr>"])
       (simp add: requestcode_def remoteCall_def)
next
  assume "h = userdata"
  then show ?thesis
    by (intro exI [of _ "proClient r"] exI [of _ "ReqUserData (user r)"]
          exI [of _ "p\<lparr>sent := sent p @ [(proClient r, ReqUserData (user r))]\<rparr>"])
       (simp add: userdata_def remoteCall_def)
next
  assume "h = referral"
  then show ?thesis
    by (intro exI [of _ "proClient r"]
          exI [of _ "ReqRedeemReferralCode (user r) (Referral s)"]
          exI [of _ "p\<lparr>sent := sent p @ [(proClient r, ReqRedeemReferralCode (user r) (Referral s))]\<rparr>"])
       (simp add: referral_def remoteCall_def)
next
  assume "h = cancel"
  then show ?thesis
    by (intro exI [of _ "proClient r"] exI [of _ "ReqCancelSubscription (user r)"]
          exI [of _ "p\<lparr>sent := sent p @ [(proClient r, ReqCancelSubscription (user r))]\<rparr>"])
       (simp add: cancel_def remoteCall_def)
qed

lemma handler_error_keeps_session:
  assumes "commands c = Some h" and "h e r s p = Inr (res, Some m, s', p')"
  shows "s' = s"
  using assms(1)
  by (rule commands_cases)
     (use assms(2) in \<open>auto simp: handler_defs remoteCall_def failed_def NewIdempotencyKey_def
         split: prod.splits option.splits sum.splits if_splits\<close>)

lemma newRequest_ok:
  "GetHTTPClient e shouldProxy = Inr c \<Longrightarrow> \<exists>req. newRequest e shouldProxy s = Inr req"
  by (simp add: newRequest_def)

lemma newRequest_remote:
  "newRequest (e\<lparr>remote := rm\<rparr>) shouldProxy s = newRequest e shouldProxy s"
  by (simp add: newRequest_def)

lemma ProRequest_via_handler:
  assumes "newRequest e shouldProxy s = Inr req"
    and "commands command = Some h"
    and "h e (req\<lparr>proClient := SetLocale (Locale s) (proClient req)\<rparr>) s p
           = Inr (res, err, s', p')"
  shows "ProRequest e shouldProxy command s p =
           (case failed res err of
              Inl f \<Rightarrow> Inl f
            | Inr notOk \<Rightarrow>
                if notOk
                then (case res of
                        None \<Rightarrow> Inr (False, s', p')
                      | Some x \<Rightarrow>
                          Inr (False, invoke (SetError command (Response_Error x)) s', p'))
                else Inr (True, s', p'))"
  using assms by (simp add: ProRequest_def)


lemma unknown_command_panics:
  assumes "command \<notin> dom commands" and "GetHTTPClient e shouldProxy = Inr c"
  shows "ProRequest e shouldProxy command s p = Inl NilFunc"
  using assms by (auto simp: ProRequest_def newRequest_def split: option.splits)

subsection \<open>Mutator calls made by the loops\<close>

lemma fold_invoke_calls: "calls (fold (\<lambda>x. invoke (f x)) xs s) = calls s @ map f xs"
  by (induction xs arbitrary: s) (simp_all add: invoke_def)

lemma addPlan_calls:
  "calls (addPlan pl s) = calls s @ calls (addPlan pl (s\<lparr>calls := []\<rparr>))"
  by (simp add: addPlan_def invoke_def split: list.splits)

lemma fold_addPlan_calls:
  "calls (fold addPlan ps s) =
     calls s @ concat (map (\<lambda>pl. calls (addPlan pl (s\<lparr>calls := []\<rparr>))) ps)"
proof (induction ps arbitrary: s)
  case Nil
  show ?case by simp
next
  case (Cons pl ps)
  have same: "addPlan pl s\<lparr>calls := []\<rparr> = s\<lparr>calls := []\<rparr>"
    by (simp add: addPlan_def invoke_def split: list.splits)
  show ?case
    by (simp add: Cons.IH [of "addPlan pl s"] same) (simp add: addPlan_calls [of pl s])
qed

subsection \<open>Keys drawn and requests sent\<close>

lemma purchaseKeys_append: "purchaseKeys (xs @ ys) = purchaseKeys xs @ purchaseKeys ys"
  by (induction xs rule: purchaseKeys.induct) (simp_all split: request.splits)

lemma handler_process:
  assumes "commands c = Some h" and "h e r s p = Inr (res, err, s', p')"
  shows "idempotencyKeys p' = idempotencyKeys p \<and>
         (if c = ''purchase''
          then drawn p' = Suc (drawn p) \<and>
               purchaseKeys (sent p') = purchaseKeys (sent p) @ [idempotencyKeys p (drawn p)]
          else drawn p' = drawn p \<and> purchaseKeys (sent p') = purchaseKeys (sent p))"
  using assms(1)
  by (rule commands_cases)
     (use assms(2) in \<open>auto simp: handler_defs remoteCall_def failed_def NewIdempotencyKey_def
         purchaseKeys_append split: prod.splits option.splits sum.splits if_splits\<close>)

lemma ProRequest_process:
  assumes "ProRequest e shouldProxy command s p = Inr (b, s', p')"
  shows "idempotencyKeys p' = idempotencyKeys p \<and>
         (if sendsPurchase (ViaProRequest e shouldProxy command s)
          then drawn p' = Suc (drawn p) \<and>
               purchaseKeys (sent p') = purchaseKeys (sent p) @ [idempotencyKeys p (drawn p)]
          else drawn p' = drawn p \<and> purchaseKeys (sent p') = purchaseKeys (sent p))"
proof (cases "GetHTTPClient e shouldProxy")
  case (Inl m)
  with assms show ?thesis
    by (simp add: ProRequest_def newRequest_def sendsPurchase_def)
next
  case (Inr c)
  then obtain req where req: "newRequest e shouldProxy s = Inr req"
    using newRequest_ok by blast
  from assms req obtain h where h: "commands command = Some h"
    by (auto simp: ProRequest_def split: option.splits)
  from assms req h obtain res err s1 where
    run: "h e (req\<lparr>proClient := SetLocale (Locale s) (proClient req)\<rparr>) s p
            = Inr (res, err, s1, p')"
    by (auto simp: ProRequest_def split: sum.splits option.splits if_splits)
  from handler_process [OF h run] Inr show ?thesis
    by (simp add: sendsPurchase_def)
qed

lemma RemoveDevice_process:
  assumes "RemoveDevice e shouldProxy deviceId s p = Inr (b, s', p')"
  shows "idempotencyKeys p' = idempotencyKeys p \<and> drawn p' = drawn p \<and>
         purchaseKeys (sent p') = purchaseKeys (sent p)"
  using assms
  by (auto simp: RemoveDevice_def remoteCall_def purchaseKeys_append
           split: sum.splits prod.splits option.splits if_splits)

lemma perform_process:
  assumes "perform c p = Inr (b, s', p')"
  shows "idempotencyKeys p' = idempotencyKeys p \<and>
         (if sendsPurchase c
          then drawn p' = Suc (drawn p) \<and>
               purchaseKeys (sent p') = purchaseKeys (sent p) @ [idempotencyKeys p (drawn p)]
          else drawn p' = drawn p \<and> purchaseKeys (sent p') = purchaseKeys (sent p))"
proof (cases c)
  case (ViaProRequest e shouldProxy command s)
  with assms ProRequest_process [of e shouldProxy command s p b s' p'] show ?thesis
    by (simp add: perform_def)
next
  case (ViaRemoveDevice e shouldProxy deviceId s)
  with assms RemoveDevice_process [of e shouldProxy deviceId s p b s' p'] show ?thesis
    by (simp add: perform_def sendsPurchase_def)
qed

lemma lifetime_process:
  "lifetime cs p = Inr (rs, p') \<Longrightarrow>
     idempotencyKeys p' = idempotencyKeys p \<and>
     drawn p' = drawn p + length (filter sendsPurchase cs) \<and>
     purchaseKeys (sent p') =
       purchaseKeys (sent p)
         @ map (idempotencyKeys p) [drawn p ..< drawn p + length (filter sendsPurchase cs)]"
proof (induction cs arbitrary: p rs)
  case Nil
  then show ?case by simp
next
  case (Cons c cs)
  from Cons.prems obtain b s1 p1 rs1 where
    step: "perform c p = Inr (b, s1, p1)" and rest: "lifetime cs p1 = Inr (rs1, p')"
    by (auto split: sum.splits)
  note one = perform_process [OF step]
  note more = Cons.IH [OF rest]
  show ?case
  proof (cases "sendsPurchase c")
    case True
    have "[drawn p ..< drawn p + Suc (length (filter sendsPurchase cs))] =
            drawn p # [Suc (drawn p) ..< Suc (drawn p) + length (filter sendsPurchase cs)]"
      by (subst upt_rec) simp
    with True one more show ?thesis
      by simp
  next
    case False
    with one more show ?thesis by simp
  qed
qed

text \<open>
  What the file itself does about idempotency keys: a call that reaches the \<open>purchase\<close>
  handler draws one key from the generator and puts it unchanged into the one purchase
  request it sends. So in a process that started with nothing sent, the purchase request
  number \<open>n\<close> carries the key of draw number \<open>n\<close>. Whether two draws are different
  keys is decided by the generator, which is not part of the file.
\<close>

lemma purchase_requests_carry_successive_draws:
  assumes "lifetime cs (start keys) = Inr (rs, p')"
  shows "purchaseKeys (sent p') = map keys [0 ..< length (filter sendsPurchase cs)]"
  using lifetime_process [OF assms] by (simp add: start_def)

subsection \<open>The concrete surroundings\<close>

lemmas ex_defs = exEnv_def exOffline_def exSession_def exRequest_def exResponse_def
  noUser_def start_def NewClient_def SetLocale_def

lemma exEnv_remote: "(exEnv a)\<lparr>remote := (\<lambda>c q. b)\<rparr> = exEnv b"
  by (simp add: exEnv_def)

lemma remote_exEnv: "remote (exEnv (res, err)) c q = (res, err)"
  by (simp add: exEnv_def)

lemma GetHTTPClient_exEnv: "GetHTTPClient (exEnv a) shouldProxy = Inr (HTTPClient 1)"
  by (simp add: exEnv_def)

lemma newRequest_exSession:
  "newRequest (exEnv a) shouldProxy exSession
     = Inr (exRequest\<lparr>proClient := NewClient (HTTPClient 1)\<rparr>)"
  by (simp add: newRequest_def ex_defs)

text \<open>
  \<open>RemoveDevice\<close> in full. It never calls a mutator. Without a request context it
  returns false and sends nothing. With a response it returns whether there is no error
  and the status is \<^verbatim>\<open>ok\<close>. Without a response it panics: with an error in the log
  line, which reads \<^verbatim>\<open>res.Status\<close>, and without one in the test itself.
\<close>

lemma RemoveDevice_outcome:
  "RemoveDevice e shouldProxy deviceId s p =
     (case newRequest e shouldProxy s of
        Inl m \<Rightarrow> Inr (False, s, p)
      | Inr req \<Rightarrow>
          (case remote e (proClient req) (ReqUserLinkRemove (user req) deviceId) of
             (None, err) \<Rightarrow> Inl NilDeref
           | (Some x, err) \<Rightarrow>
               Inr (err = None \<and> Response_Status x = ''ok'', s,
                    p\<lparr>sent := sent p
                         @ [(proClient req, ReqUserLinkRemove (user req) deviceId)]\<rparr>)))"
  by (simp add: RemoveDevice_def remoteCall_def failed_def
        split: sum.splits prod.splits option.splits)

section \<open>The claims\<close>

text \<open>
  \<^bold>\<open>Claim C1.\<close> A command name that is not in the table should make \<open>ProRequest\<close>
  return false, call no mutator of the session and not panic. The code indexes the map
  and calls what it finds. Here the HTTP client is built, the name is
  \<^verbatim>\<open>bogus-command\<close>, and the call of the nil function panics before anything is
  returned.
\<close>

theorem ProRequest_bogus_command_panics:
  "ProRequest (exEnv (None, Some ''unreachable'')) False ''bogus-command'' exSession
     (start exKeys) = Inl NilFunc"
  by (simp add: ProRequest_def newRequest_def commands_def exEnv_def)

text \<open>
  \<^bold>\<open>Claim C2.\<close> User id, token and referral code should be written only after a
  successful answer. \<open>newuser\<close> writes them as soon as the remote call carries no error,
  whatever the status. Here the server answers with status \<^verbatim>\<open>error\<close> and an empty
  user: \<open>ProRequest\<close> returns false, records the error, and the session has received
  \<open>SetUserId 0\<close>, \<open>SetToken ""\<close> and \<open>SetCode ""\<close>.
\<close>

theorem newuser_failed_status_overwrites_identity:
  "ProRequest (exEnv (Some (exResponse ''error'' ''email taken'' noUser), None)) False
     ''newuser'' exSession (start exKeys)
   = Inr (False,
          exSession\<lparr>calls := [SetUserId 0, SetToken '''', SetCode '''',
                              SetError ''newuser'' ''email taken'']\<rparr>,
          (start exKeys)\<lparr>sent := [(proClient exRequest, ReqUserCreate (user exRequest))]\<rparr>)"
  by (simp add: ProRequest_def newRequest_def commands_def newuser_def remoteCall_def
        failed_def invoke_def ex_defs)



text \<open>
  \<^bold>\<open>Claim C4.\<close> Let the remote call of \<open>redeemcode\<close> return \<open>(res, err)\<close>, a
  response or an error or both. The handler returns that pair. When \<open>err\<close> is nil and
  the status of \<open>res\<close> is \<^verbatim>\<open>ok\<close>, the session has received \<open>SetToken\<close> and then
  \<open>SetUserId\<close> with the credentials of the response, and nothing else. In every other
  case, a status other than \<^verbatim>\<open>ok\<close> without an error among them, the session is as
  it was.
\<close>

theorem redeemcode_writes_iff:
  assumes "remote e (proClient r)
             (ReqRedeemLinkCode ((user r)\<lparr>User_Code := DeviceCode s\<rparr>) (DeviceName s))
           = (res, err)"
    and "res \<noteq> None \<or> err \<noteq> None"
  shows "\<exists>s' p'. redeemcode e r s p = Inr (res, err, s', p') \<and>
           (if err = None \<and> map_option Response_Status res = Some ''ok''
            then calls s' = calls s
                   @ [SetToken (Auth_Token (User_Auth (Response_User (the res)))),
                      SetUserId (Auth_ID (User_Auth (Response_User (the res))))]
            else s' = s)"
proof (cases err)
  case (Some m)
  with assms(1) show ?thesis
    by (simp add: redeemcode_def remoteCall_def failed_def)
next
  case None
  with assms(2) obtain x where x: "res = Some x" by auto
  show ?thesis
  proof (cases "Response_Status x = ''ok''")
    case True
    with None x assms(1) show ?thesis
      by (simp add: redeemcode_def remoteCall_def failed_def invoke_def)
  next
    case False
    with None x assms(1) show ?thesis
      by (simp add: redeemcode_def remoteCall_def failed_def)
  qed
qed

theorem redeemcode_writes_iff_witness:
  "(\<exists>s' p'. redeemcode (exEnv (Some (exResponse ''ok'' '''' exNewUser), None)) exRequest
               exSession (start exKeys)
             = Inr (Some (exResponse ''ok'' '''' exNewUser), None, s', p') \<and>
             calls s' = [SetToken ''T'', SetUserId 42]) \<and>
   (\<exists>p'. redeemcode (exEnv (Some (exResponse ''error'' ''expired'' exNewUser), None))
            exRequest exSession (start exKeys)
          = Inr (Some (exResponse ''error'' ''expired'' exNewUser), None, exSession, p'))"
proof -
  from redeemcode_writes_iff
         [where e = "exEnv (Some (exResponse ''ok'' '''' exNewUser), None)"
            and res = "Some (exResponse ''ok'' '''' exNewUser)" and err = None
            and r = exRequest and s = exSession and p = "start exKeys",
          OF remote_exEnv]
  have 1: "\<exists>s' p'. redeemcode (exEnv (Some (exResponse ''ok'' '''' exNewUser), None)) exRequest
               exSession (start exKeys)
             = Inr (Some (exResponse ''ok'' '''' exNewUser), None, s', p') \<and>
             calls s' = [SetToken ''T'', SetUserId 42]"
    by (simp add: exResponse_def exNewUser_def noUser_def exSession_def)
  from redeemcode_writes_iff
         [where e = "exEnv (Some (exResponse ''error'' ''expired'' exNewUser), None)"
            and res = "Some (exResponse ''error'' ''expired'' exNewUser)" and err = None
            and r = exRequest and s = exSession and p = "start exKeys",
          OF remote_exEnv]
  have 2: "\<exists>p'. redeemcode (exEnv (Some (exResponse ''error'' ''expired'' exNewUser), None))
            exRequest exSession (start exKeys)
          = Inr (Some (exResponse ''error'' ''expired'' exNewUser), None, exSession, p')"
    by (simp add: exResponse_def)
  from 1 2 show ?thesis by blast
qed

text \<open>
  \<^bold>\<open>Claim C5.\<close> Let the command be one of the table and let the HTTP client be built.
  The dispatch sends exactly one request \<open>q\<close> through a client \<open>cl\<close>, the same
  whatever the Pro server is. For every Pro server \<open>rm\<close> that answers this request with
  an error, with or without a response, \<open>ProRequest\<close> returns false. Without a
  response the session is as it was; with a response the session has received one more
  mutator call, \<open>SetError\<close> with the command name and the message of the response. So
  no call of \<open>SetUserId\<close>, \<open>SetToken\<close> or \<open>SetCode\<close> is made.
\<close>

theorem ProRequest_transport_error_frame:
  assumes "command \<in> dom commands" and "GetHTTPClient e shouldProxy = Inr c"
  shows "\<exists>cl q p'. sent p' = sent p @ [(cl, q)] \<and>
           (\<forall>rm res m. rm cl q = (res, Some m) \<longrightarrow>
              ProRequest (e\<lparr>remote := rm\<rparr>) shouldProxy command s p =
                Inr (False,
                     (case res of
                        None \<Rightarrow> s
                      | Some x \<Rightarrow>
                          s\<lparr>calls := calls s @ [SetError command (Response_Error x)]\<rparr>),
                     p'))"
proof -
  from assms(1) obtain h where h: "commands command = Some h" by auto
  from assms(2) obtain req where req: "newRequest e shouldProxy s = Inr req"
    using newRequest_ok by blast
  let ?r = "req\<lparr>proClient := SetLocale (Locale s) (proClient req)\<rparr>"
  from handler_call [OF h, of p e ?r s]
  obtain cl q p' where once: "sent p' = sent p @ [(cl, q)]"
    and on_error: "\<And>rm res m. rm cl q = (res, Some m) \<Longrightarrow>
        h (e\<lparr>remote := rm\<rparr>) ?r s p = Inr (res, Some m, s, p')"
    by blast
  have frame: "ProRequest (e\<lparr>remote := rm\<rparr>) shouldProxy command s p =
          Inr (False,
               (case res of
                  None \<Rightarrow> s
                | Some x \<Rightarrow> s\<lparr>calls := calls s @ [SetError command (Response_Error x)]\<rparr>),
               p')"
    if a: "rm cl q = (res, Some m)" for rm res m
  proof -
    have req': "newRequest (e\<lparr>remote := rm\<rparr>) shouldProxy s = Inr req"
      using req by (simp add: newRequest_remote)
    from ProRequest_via_handler [OF req' h on_error [of rm res m, OF a]] show ?thesis
      by (cases res) (simp_all add: failed_def invoke_def)
  qed
  show ?thesis
    by (rule exI [of _ cl], rule exI [of _ q], rule exI [of _ p'])
       (intro conjI allI impI, rule once, rule frame)
qed

theorem ProRequest_transport_error_frame_witness:
  "(\<exists>p'. ProRequest (exEnv (Some (exResponse ''error'' ''card_declined'' noUser),
                             Some ''402 Payment Required''))
            False ''purchase'' exSession (start exKeys)
          = Inr (False, exSession\<lparr>calls := [SetError ''purchase'' ''card_declined'']\<rparr>, p')) \<and>
   (\<exists>p'. ProRequest (exEnv (None, Some ''timeout'')) False ''newuser'' exSession
            (start exKeys)
          = Inr (False, exSession, p'))"
proof -
  have reg: "''purchase'' \<in> dom commands" "''newuser'' \<in> dom commands"
    by (simp_all add: dom_commands)
  have 1: "\<exists>p'. ProRequest (exEnv (Some (exResponse ''error'' ''card_declined'' noUser),
                             Some ''402 Payment Required''))
            False ''purchase'' exSession (start exKeys)
          = Inr (False, exSession\<lparr>calls := [SetError ''purchase'' ''card_declined'']\<rparr>, p')"
    using ProRequest_transport_error_frame
            [where e = "exEnv (None, None)" and shouldProxy = False and s = exSession
               and p = "start exKeys", OF reg(1) GetHTTPClient_exEnv]
    apply (elim exE conjE)
    apply (drule spec [of _ "\<lambda>c q. (Some (exResponse ''error'' ''card_declined'' noUser),
                                     Some ''402 Payment Required'')"])
    apply (simp add: exEnv_remote exResponse_def exSession_def)
    done
  have 2: "\<exists>p'. ProRequest (exEnv (None, Some ''timeout'')) False ''newuser'' exSession
            (start exKeys)
          = Inr (False, exSession, p')"
    using ProRequest_transport_error_frame
            [where e = "exEnv (None, None)" and shouldProxy = False and s = exSession
               and p = "start exKeys", OF reg(2) GetHTTPClient_exEnv]
    apply (elim exE conjE)
    apply (drule spec [of _ "\<lambda>c q. (None, Some ''timeout'')"])
    apply (simp add: exEnv_remote)
    done
  from 1 2 show ?thesis by blast
qed

text \<open>
  \<^bold>\<open>Claim C7.\<close> Let the remote call of \<open>userdata\<close> return a response and no error
  (whatever the status, so on every successful call). The handler returns, and the
  session has received one \<open>AddDevice\<close> for each device of the response, in the order
  of the response, and after them one \<open>UserData\<close> with status, expiration, subscription
  and email; nothing else.
\<close>

theorem userdata_adds_devices_then_updates:
  assumes "remote e (proClient r) (ReqUserData (user r)) = (Some x, None)"
  shows "\<exists>s' p'. userdata e r s p = Inr (Some x, None, s', p') \<and>
           calls s' = calls s
             @ map (\<lambda>d. AddDevice (Device_Id d) (Device_Name d))
                 (User_Devices (Response_User x))
             @ [UserData (User_UserStatus (Response_User x))
                  (User_Expiration (Response_User x))
                  (User_Subscription (Response_User x)) (User_Email (Response_User x))]"
  using assms by (simp add: userdata_def remoteCall_def fold_invoke_calls invoke_def)

theorem userdata_adds_devices_then_updates_witness:
  "\<exists>s' p'. userdata (exEnv (Some (exResponse ''ok'' '''' exLinkedUser), None)) exRequest
              exSession (start exKeys)
            = Inr (Some (exResponse ''ok'' '''' exLinkedUser), None, s', p') \<and>
            calls s' = [AddDevice ''d1'' ''phone'', AddDevice ''d2'' ''laptop'',
                        UserData ''active'' 1700000000 ''1y'' ''a@b.org'']"
  using userdata_adds_devices_then_updates
          [where e = "exEnv (Some (exResponse ''ok'' '''' exLinkedUser), None)"
             and r = exRequest and s = exSession and p = "start exKeys",
           OF remote_exEnv]
  by (simp add: exResponse_def exLinkedUser_def noUser_def exSession_def)

text \<open>
  \<^bold>\<open>Claim C10.\<close> Let the command be one of the table and let its handler, called as
  \<open>ProRequest\<close> calls it, return an error together with the nil response. Then
  \<open>ProRequest\<close> returns false and does not panic, and the session it leaves is the one
  it was given: the handler has called no mutator and the dispatcher does not call
  \<open>SetError\<close>.
\<close>

theorem ProRequest_nil_response_with_error:
  assumes "commands command = Some handler"
    and "newRequest e shouldProxy s = Inr req"
    and "handler e (req\<lparr>proClient := SetLocale (Locale s) (proClient req)\<rparr>) s p
           = Inr (None, Some m, s', p')"
  shows "ProRequest e shouldProxy command s p = Inr (False, s, p') \<and> s' = s"
proof -
  from handler_error_keeps_session [OF assms(1) assms(3)] have "s' = s" .
  with ProRequest_via_handler [OF assms(2) assms(1) assms(3)] show ?thesis
    by (simp add: failed_def)
qed

theorem ProRequest_nil_response_with_error_witness:
  "ProRequest (exEnv (None, Some ''timeout'')) False ''signin'' exSession (start exKeys)
   = Inr (False, exSession,
          (start exKeys)\<lparr>sent := [(proClient exRequest,
                                   ReqApplyLinkCode ((user exRequest)\<lparr>User_Code := ''1234''\<rparr>))]\<rparr>)"
proof -
  have table: "commands ''signin'' = Some signin"
    by (simp add: commands_def)
  have run: "signin (exEnv (None, Some ''timeout''))
               ((exRequest\<lparr>proClient := NewClient (HTTPClient 1)\<rparr>)
                  \<lparr>proClient := SetLocale (Locale exSession)
                     (proClient (exRequest\<lparr>proClient := NewClient (HTTPClient 1)\<rparr>))\<rparr>)
               exSession (start exKeys)
             = Inr (None, Some ''timeout'', exSession,
                    (start exKeys)\<lparr>sent := [(proClient exRequest,
                       ReqApplyLinkCode ((user exRequest)\<lparr>User_Code := ''1234''\<rparr>))]\<rparr>)"
    by (simp add: signin_def remoteCall_def ex_defs)
  from ProRequest_nil_response_with_error [OF table newRequest_exSession run]
  show ?thesis by simp
qed

text \<open>
  \<^bold>\<open>Claim C6.\<close> As stated, the claim fails twice. A successful answer without plans
  leaves the handler at its first test, before \<open>SetStripePubKey\<close>: the key of the
  response is not written. And a plan whose price visited first is filed under the
  currency \<^verbatim>\<open>""\<close> gets no \<open>AddPlan\<close>, although its mapping is not empty.
\<close>

theorem plans_counterexample:
  "Response_Status (exPlans\<lparr>Response_Plans := []\<rparr>) = ''ok'' \<and>
   Response_PubKey (exPlans\<lparr>Response_Plans := []\<rparr>) = ''pk_live'' \<and>
   plans (exEnv (Some (exPlans\<lparr>Response_Plans := []\<rparr>), None)) exRequest exSession
     (start exKeys)
   = Inr (Some (exPlans\<lparr>Response_Plans := []\<rparr>), None, exSession,
          (start exKeys)\<lparr>sent := [(proClient exRequest, ReqPlans (user exRequest))]\<rparr>) \<and>
   Plan_Price exUnnamedCurrency = [('''', 900)] \<and>
   plans (exEnv (Some (exPlans\<lparr>Response_Plans := [exUnnamedCurrency]\<rparr>), None)) exRequest
     exSession (start exKeys)
   = Inr (Some (exPlans\<lparr>Response_Plans := [exUnnamedCurrency]\<rparr>), None,
          exSession\<lparr>calls := [SetStripePubKey ''pk_live'']\<rparr>,
          (start exKeys)\<lparr>sent := [(proClient exRequest, ReqPlans (user exRequest))]\<rparr>)"
  by (simp add: plans_def addPlan_def remoteCall_def invoke_def exPlans_def
        exUnnamedCurrency_def exEnv_def exSession_def start_def)

text \<open>
  \<^bold>\<open>Claim C6, amended.\<close> Let the remote call of \<open>plans\<close> return no error and a
  response with at least one plan (whatever the status, so on every successful call that
  lists a plan). The handler returns, and the session has received \<open>SetStripePubKey\<close>
  with the key of the response and then, plan by plan in the order of the response, the
  calls \<open>recs\<close>: none for a plan whose price mapping is empty, and exactly one
  \<open>AddPlan\<close> for a plan whose price visited first has a currency other than \<^verbatim>\<open>""\<close>,
  made of that currency and that price.
\<close>

theorem plans_adds_one_record_per_priced_plan:
  assumes "remote e (proClient r) (ReqPlans (user r)) = (Some x, None)"
    and "Response_Plans x \<noteq> []"
  shows "\<exists>s' p' recs. plans e r s p = Inr (Some x, None, s', p') \<and>
           calls s' = calls s @ SetStripePubKey (Response_PubKey x) # concat recs \<and>
           list_all2 (\<lambda>pl rec.
               (Plan_Price pl = [] \<longrightarrow> rec = []) \<and>
               (\<forall>c pr rest. Plan_Price pl = (c, pr) # rest \<and> c \<noteq> '''' \<longrightarrow>
                  rec = [AddPlan (Plan_Id pl) (Plan_Description pl) c (Plan_BestValue pl)
                           (Duration_Years (Plan_Duration pl)) pr]))
             (Response_Plans x) recs"
proof -
  let ?recs = "map (\<lambda>pl. calls (addPlan pl (s\<lparr>calls := []\<rparr>))) (Response_Plans x)"
  have run: "plans e r s p =
      Inr (Some x, None,
           fold addPlan (Response_Plans x) (invoke (SetStripePubKey (Response_PubKey x)) s),
           p\<lparr>sent := sent p @ [(proClient r, ReqPlans (user r))]\<rparr>)"
    using assms by (simp add: plans_def remoteCall_def)
  have log: "calls (fold addPlan (Response_Plans x)
                     (invoke (SetStripePubKey (Response_PubKey x)) s))
      = calls s @ SetStripePubKey (Response_PubKey x) # concat ?recs"
    by (simp add: fold_addPlan_calls invoke_def)
  have each: "list_all2 (\<lambda>pl rec.
               (Plan_Price pl = [] \<longrightarrow> rec = []) \<and>
               (\<forall>c pr rest. Plan_Price pl = (c, pr) # rest \<and> c \<noteq> '''' \<longrightarrow>
                  rec = [AddPlan (Plan_Id pl) (Plan_Description pl) c (Plan_BestValue pl)
                           (Duration_Years (Plan_Duration pl)) pr]))
             (Response_Plans x) ?recs"
    by (auto simp: list_all2_map2 list_all2_same addPlan_def invoke_def)
  from run log each show ?thesis by blast
qed

theorem plans_adds_one_record_per_priced_plan_witness:
  "\<exists>s' p'. plans (exEnv (Some exPlans, None)) exRequest exSession (start exKeys)
            = Inr (Some exPlans, None, s', p') \<and>
            calls s' = [SetStripePubKey ''pk_live'',
                        AddPlan ''1y'' ''One year'' ''usd'' True 1 500]"
proof -
  have listed: "Response_Plans exPlans \<noteq> []"
    by (simp add: exPlans_def)
  from plans_adds_one_record_per_priced_plan
         [where e = "exEnv (Some exPlans, None)" and r = exRequest and s = exSession
            and p = "start exKeys", OF remote_exEnv listed]
  obtain s' p' recs where
    run: "plans (exEnv (Some exPlans, None)) exRequest exSession (start exKeys)
            = Inr (Some exPlans, None, s', p')"
    and log: "calls s' = calls exSession @ SetStripePubKey (Response_PubKey exPlans) # concat recs"
    and each: "list_all2 (\<lambda>pl rec.
               (Plan_Price pl = [] \<longrightarrow> rec = []) \<and>
               (\<forall>c pr rest. Plan_Price pl = (c, pr) # rest \<and> c \<noteq> '''' \<longrightarrow>
                  rec = [AddPlan (Plan_Id pl) (Plan_Description pl) c (Plan_BestValue pl)
                           (Duration_Years (Plan_Duration pl)) pr]))
             (Response_Plans exPlans) recs"
    by blast
  from each have "recs = [[], [AddPlan ''1y'' ''One year'' ''usd'' True 1 500]]"
    by (simp add: exPlans_def list_all2_Cons1)
  with log have "calls s' = [SetStripePubKey ''pk_live'',
                        AddPlan ''1y'' ''One year'' ''usd'' True 1 500]"
    by (simp add: exPlans_def exSession_def)
  with run show ?thesis by blast
qed

text \<open>
  \<^bold>\<open>Claim C8.\<close> \<open>RemoveDevice\<close> should return true when the client is built, the
  remote call returns no error and the status is \<^verbatim>\<open>ok\<close>, return false in every other
  case, and never write to the session. The code does not return false when
  \<open>UserLinkRemove\<close> returns an error and the nil response: the arguments of its log line
  include \<^verbatim>\<open>res.Status\<close>, which reads through the nil pointer, and the call panics.
  \<open>ProRequest\<close> guards the same answer with \<^verbatim>\<open>res != nil\<close>.
\<close>

theorem RemoveDevice_error_without_response_panics:
  "RemoveDevice (exEnv (None, Some ''timeout'')) False ''d1'' exSession (start exKeys)
     = Inl NilDeref"
  by (simp add: RemoveDevice_def newRequest_exSession remoteCall_def remote_exEnv failed_def)

end
